theory Spec2Isabelle
  imports Complex_Main "HOL-Library.Sublist"
begin

section \<open>JavaScript values used by the invoice composer\<close>

text \<open>
  The composer (\<^verbatim>\<open>createPDFDocument\<close> and its two exported entry points) is
  JavaScript. Its numbers are modelled as exact reals together with the three special
  values of the language: rounding, signed zero and the finite range of doubles are
  outside the model, while \<open>NaN\<close> and the infinities, which \<^verbatim>\<open>parseFloat\<close>
  produces from strings, are inside it.
\<close>

datatype jsnum = Fin real | PInf | NInf | NaN

fun js_neg :: "jsnum \<Rightarrow> jsnum" where
  "js_neg (Fin a) = Fin (- a)"
| "js_neg PInf = NInf"
| "js_neg NInf = PInf"
| "js_neg NaN = NaN"

fun js_add :: "jsnum \<Rightarrow> jsnum \<Rightarrow> jsnum" where
  "js_add (Fin a) (Fin b) = Fin (a + b)"
| "js_add (Fin a) PInf = PInf"
| "js_add (Fin a) NInf = NInf"
| "js_add PInf (Fin b) = PInf"
| "js_add PInf PInf = PInf"
| "js_add PInf NInf = NaN"
| "js_add NInf (Fin b) = NInf"
| "js_add NInf PInf = NaN"
| "js_add NInf NInf = NInf"
| "js_add NaN b = NaN"
| "js_add a NaN = NaN"

definition js_sub :: "jsnum \<Rightarrow> jsnum \<Rightarrow> jsnum" where
  "js_sub a b = js_add a (js_neg b)"

fun js_mul :: "jsnum \<Rightarrow> jsnum \<Rightarrow> jsnum" where
  "js_mul (Fin a) (Fin b) = Fin (a * b)"
| "js_mul (Fin a) PInf = (if a = 0 then NaN else if 0 < a then PInf else NInf)"
| "js_mul (Fin a) NInf = (if a = 0 then NaN else if 0 < a then NInf else PInf)"
| "js_mul PInf (Fin b) = (if b = 0 then NaN else if 0 < b then PInf else NInf)"
| "js_mul NInf (Fin b) = (if b = 0 then NaN else if 0 < b then NInf else PInf)"
| "js_mul PInf PInf = PInf"
| "js_mul PInf NInf = NInf"
| "js_mul NInf PInf = NInf"
| "js_mul NInf NInf = PInf"
| "js_mul NaN b = NaN"
| "js_mul a NaN = NaN"

text \<open>\<^verbatim>\<open>a > b\<close>: false whenever an operand is \<open>NaN\<close>.\<close>

fun js_gt :: "jsnum \<Rightarrow> jsnum \<Rightarrow> bool" where
  "js_gt (Fin a) (Fin b) = (b < a)"
| "js_gt (Fin a) PInf = False"
| "js_gt (Fin a) NInf = True"
| "js_gt PInf (Fin b) = True"
| "js_gt PInf PInf = False"
| "js_gt PInf NInf = True"
| "js_gt NInf b = False"
| "js_gt NaN b = False"
| "js_gt a NaN = False"

text \<open>\<^verbatim>\<open>a !== b\<close> on numbers: \<open>NaN\<close> differs from everything, itself included.\<close>

definition js_strict_ne :: "jsnum \<Rightarrow> jsnum \<Rightarrow> bool" where
  "js_strict_ne a b = (a = NaN \<or> b = NaN \<or> a \<noteq> b)"

text \<open>Truthiness of a number: \<open>0\<close> and \<open>NaN\<close> are falsy.\<close>

definition truthy_num :: "jsnum \<Rightarrow> bool" where
  "truthy_num n = (n \<noteq> Fin 0 \<and> n \<noteq> NaN)"

text \<open>
  A numeric field of the input (\<^verbatim>\<open>quantity\<close>, \<^verbatim>\<open>rate\<close>, \<^verbatim>\<open>total\<close>) is
  read from JSON: it is missing (\<^verbatim>\<open>undefined\<close> or \<^verbatim>\<open>null\<close>), a number or a
  string.
\<close>

datatype jsfield = Absent | NumV jsnum | StrV string

subsection \<open>Strings\<close>

text \<open>Strings are byte strings; case conversion acts on the ASCII letters.\<close>

definition lower_char :: "char \<Rightarrow> char" where
  "lower_char c =
     (let n = (of_char c :: nat) in if 65 \<le> n \<and> n \<le> 90 then char_of (n + 32) else c)"

definition upper_char :: "char \<Rightarrow> char" where
  "upper_char c =
     (let n = (of_char c :: nat) in if 97 \<le> n \<and> n \<le> 122 then char_of (n - 32) else c)"

definition toLowerCase :: "string \<Rightarrow> string" where
  "toLowerCase s = map lower_char s"

definition toUpperCase :: "string \<Rightarrow> string" where
  "toUpperCase s = map upper_char s"

fun starts_with :: "string \<Rightarrow> string \<Rightarrow> bool" where
  "starts_with s [] = True"
| "starts_with [] (k # ks) = False"
| "starts_with (c # cs) (k # ks) = (c = k \<and> starts_with cs ks)"

text \<open>\<^verbatim>\<open>s.includes(k)\<close>: \<open>k\<close> occurs in \<open>s\<close> as a contiguous substring.\<close>

fun str_includes :: "string \<Rightarrow> string \<Rightarrow> bool" where
  "str_includes [] k = (k = [])"
| "str_includes (c # cs) k = (starts_with (c # cs) k \<or> str_includes cs k)"

text \<open>
  An optional string field: \<open>None\<close> is a missing field. The empty string is falsy, so
  \<^verbatim>\<open>s || d\<close> replaces both a missing and an empty string.
\<close>

definition truthy_str :: "string option \<Rightarrow> bool" where
  "truthy_str s = (case s of None \<Rightarrow> False | Some t \<Rightarrow> t \<noteq> [])"

definition or_str :: "string option \<Rightarrow> string \<Rightarrow> string" where
  "or_str s d = (case s of None \<Rightarrow> d | Some t \<Rightarrow> if t = [] then d else t)"

subsection \<open>parseFloat\<close>

text \<open>
  \<^verbatim>\<open>parseFloat\<close> skips leading white space and reads the longest prefix that is a
  decimal literal: an optional sign, then \<^verbatim>\<open>Infinity\<close> or digits with an optional
  fraction and an optional exponent. When there is no such prefix the result is
  \<open>NaN\<close>. Whatever follows the prefix is ignored.
\<close>

definition is_space :: "char \<Rightarrow> bool" where
  "is_space c = ((of_char c :: nat) \<in> {9, 10, 11, 12, 13, 32})"

definition is_digit :: "char \<Rightarrow> bool" where
  "is_digit c = (48 \<le> (of_char c :: nat) \<and> (of_char c :: nat) \<le> 57)"

definition digits_val :: "string \<Rightarrow> nat" where
  "digits_val ds = foldl (\<lambda>n c. 10 * n + ((of_char c :: nat) - 48)) 0 ds"

definition exponent_part :: "string \<Rightarrow> int" where
  "exponent_part s =
     (case s of
        [] \<Rightarrow> 0
      | c # r \<Rightarrow>
          if c = CHR ''e'' \<or> c = CHR ''E'' then
            (let (neg, r') =
                   (case r of
                      [] \<Rightarrow> (False, r)
                    | d # t \<Rightarrow>
                        if d = CHR ''-'' then (True, t)
                        else if d = CHR ''+'' then (False, t) else (False, r));
                 ds = takeWhile is_digit r'
             in if ds = [] then 0
                else if neg then - int (digits_val ds) else int (digits_val ds))
          else 0)"

definition scale10 :: "real \<Rightarrow> int \<Rightarrow> real" where
  "scale10 x e = (if 0 \<le> e then x * 10 ^ nat e else x / 10 ^ nat (- e))"

definition parseFloat_str :: "string \<Rightarrow> jsnum" where
  "parseFloat_str s =
     (let s1 = dropWhile is_space s;
          (neg, s2) =
            (case s1 of
               [] \<Rightarrow> (False, s1)
             | c # t \<Rightarrow>
                 if c = CHR ''-'' then (True, t)
                 else if c = CHR ''+'' then (False, t) else (False, s1))
      in if starts_with s2 ''Infinity'' then (if neg then NInf else PInf)
         else
           (let ip = takeWhile is_digit s2;
                r1 = dropWhile is_digit s2;
                (fp, r2) =
                  (case r1 of
                     [] \<Rightarrow> ([], r1)
                   | c # t \<Rightarrow>
                       if c = CHR ''.'' then (takeWhile is_digit t, dropWhile is_digit t)
                       else ([], r1))
            in if ip = [] \<and> fp = [] then NaN
               else
                 (let m = real (digits_val ip) + real (digits_val fp) / 10 ^ length fp;
                      v = scale10 m (exponent_part r2)
                  in Fin (if neg then - v else v))))"

text \<open>
  \<^verbatim>\<open>parseFloat(x)\<close> converts its argument to a string first. A number prints as
  the shortest literal that reads back as itself, so it is returned unchanged; a missing
  value prints as \<^verbatim>\<open>undefined\<close>, which is no number.
\<close>

definition parseFloat :: "jsfield \<Rightarrow> jsnum" where
  "parseFloat x =
     (case x of Absent \<Rightarrow> NaN | NumV n \<Rightarrow> n | StrV s \<Rightarrow> parseFloat_str s)"

text \<open>\<^verbatim>\<open>x || 0\<close>: a missing value, \<open>0\<close>, \<open>NaN\<close> and the empty string give \<open>0\<close>.\<close>

definition or_zero :: "jsfield \<Rightarrow> jsfield" where
  "or_zero x =
     (case x of
        Absent \<Rightarrow> NumV (Fin 0)
      | NumV n \<Rightarrow> if truthy_num n then NumV n else NumV (Fin 0)
      | StrV s \<Rightarrow> if s = [] then NumV (Fin 0) else StrV s)"

section \<open>Data model\<close>

text \<open>
  The input objects of \<^verbatim>\<open>createPDFDocument\<close>, with the fields the function reads.
  An optional field is \<open>None\<close> when it is \<^verbatim>\<open>undefined\<close> or \<^verbatim>\<open>null\<close>. A line
  item may carry an \<^verbatim>\<open>amount\<close> of its own; the function never reads it.
\<close>

record LineItem =
  description :: "string option"
  quantity :: jsfield
  rate :: jsfield
  amount :: jsfield

record InvoiceRecord =
  invoiceNumber :: "string option"
  issueDate :: "string option"
  dueDate :: "string option"
  status :: "string option"
  invoiceTitle :: "string option"
  invoiceDescription :: "string option"
  total :: jsfield
  lineItems :: "LineItem list option"

record BusinessProfile =
  businessName :: "string option"
  businessAddress :: "string option"
  businessPhone :: "string option"
  businessEmail :: "string option"

record ClientProfile =
  name :: "string option"
  email :: "string option"
  address :: "string option"

text \<open>
  The first argument, \<^verbatim>\<open>invoiceData\<close>, is either the invoice record itself or an
  object that wraps it in a field \<^verbatim>\<open>invoice\<close>, possibly with the business and
  client profiles beside it.
\<close>

record InvoiceData = InvoiceRecord +
  invoice :: "InvoiceRecord option"
  user :: "BusinessProfile option"
  client :: "ClientProfile option"

text \<open>The empty object \<^verbatim>\<open>{}\<close> read as a profile: every field is missing.\<close>

definition emptyBusiness :: BusinessProfile where
  "emptyBusiness =
     \<lparr>businessName = None, businessAddress = None, businessPhone = None,
      businessEmail = None\<rparr>"

definition emptyClient :: ClientProfile where
  "emptyClient = \<lparr>name = None, email = None, address = None\<rparr>"

text \<open>\<^verbatim>\<open>a || b\<close> where \<open>a\<close> is an object or missing: every object is truthy.\<close>

definition or_obj :: "'a option \<Rightarrow> 'a \<Rightarrow> 'a" where
  "or_obj a b = (case a of None \<Rightarrow> b | Some x \<Rightarrow> x)"

section \<open>The document and the rendering library\<close>

text \<open>
  The document is the sequence of calls the function makes on the jsPDF object, in
  order. The table call carries the options that vary (\<^verbatim>\<open>startY\<close>, \<^verbatim>\<open>head\<close>,
  \<^verbatim>\<open>body\<close>); its theme, styles and column widths are the same constants in both
  tables.
\<close>

datatype align = AlignRight | AlignCenter

type_synonym rgb = "nat \<times> nat \<times> nat"

record table =
  startY :: real
  head :: "string list list"
  body :: "string list list"

datatype pdf_op =
    SetFontSize real
  | SetTextColor rgb
  | SetFont string string
  | SetDrawColor rgb
  | SetLineWidth real
  | Text string real real "align option"
  | Line real real real real
  | AutoTable table

text \<open>
  What the function asks of the language's number and date formatting and of the
  rendering library is a parameter of the model. The library's answers may depend on
  the state of the document, which is given to them as the calls made so far.
\<close>

record pdf_lib =
  toFixed2 :: "jsnum \<Rightarrow> string"
  numToString :: "jsnum \<Rightarrow> string"
  toLocaleDateString :: "string \<Rightarrow> string"
  splitTextToSize :: "pdf_op list \<Rightarrow> string \<Rightarrow> real \<Rightarrow> string list"
  lastAutoTableFinalY :: "pdf_op list \<Rightarrow> real"
  pageHeight :: "pdf_op list \<Rightarrow> real"
  outputDataUriString :: "pdf_op list \<Rightarrow> string"

definition primaryColor :: rgb where
  "primaryColor = (102, 126, 234)"

definition darkGray :: rgb where
  "darkGray = (51, 51, 51)"

definition lightGray :: rgb where
  "lightGray = (102, 102, 102)"

text \<open>The layout state: the calls made so far and the vertical cursor \<^verbatim>\<open>yPos\<close>.\<close>

type_synonym layout = "pdf_op list \<times> real"

section \<open>createPDFDocument\<close>

subsection \<open>Header, invoice number and dates, bill-to, job description\<close>

text \<open>\<^verbatim>\<open>if (s) { doc.text(s, 20, yPos); yPos += 5 }\<close>\<close>

definition textLine :: "string option \<Rightarrow> layout \<Rightarrow> layout" where
  "textLine s st =
     (case st of (ops, yPos) \<Rightarrow>
        if truthy_str s then (ops @ [Text (or_str s []) 20 yPos None], yPos + 5) else st)"

definition headerBlock :: "BusinessProfile \<Rightarrow> layout" where
  "headerBlock businessInfo =
     (let ops =
            [SetFontSize 24, SetTextColor darkGray, SetFont ''helvetica'' ''bold'',
             Text (or_str (businessName businessInfo) ''Invoice'') 20 25 None,
             SetFontSize 10, SetFont ''helvetica'' ''normal'', SetTextColor lightGray];
          st = (ops, 32);
          st = textLine (businessAddress businessInfo) st;
          st = textLine (businessPhone businessInfo) st;
          st = textLine (businessEmail businessInfo) st
      in st)"

definition invoiceMetaBlock :: "pdf_lib \<Rightarrow> InvoiceRecord \<Rightarrow> pdf_op list \<Rightarrow> pdf_op list" where
  "invoiceMetaBlock lib invoice' ops =
     (let ops = ops @
            [SetFontSize 10, SetTextColor darkGray, SetFont ''helvetica'' ''bold'',
             Text ''INVOICE'' 150 25 None,
             SetFont ''helvetica'' ''normal'', SetFontSize 9,
             Text (''Invoice #: '' @ or_str (invoiceNumber invoice') ''N/A'') 150 32 None];
          ops = (if truthy_str (issueDate invoice')
                 then ops @ [Text (''Issue Date: '' @
                               toLocaleDateString lib (or_str (issueDate invoice') [])) 150 37 None]
                 else ops);
          ops = (if truthy_str (dueDate invoice')
                 then ops @ [Text (''Due Date: '' @
                               toLocaleDateString lib (or_str (dueDate invoice') [])) 150 42 None]
                 else ops);
          statusText = toUpperCase (or_str (status invoice') ''draft'')
      in ops @
           [SetTextColor primaryColor, SetFont ''helvetica'' ''bold'',
            Text (''Status: '' @ statusText) 150 47 None])"

definition billToBlock :: "ClientProfile \<Rightarrow> layout \<Rightarrow> layout" where
  "billToBlock clientInfo st =
     (case st of (ops, yPos) \<Rightarrow>
        (let yPos = max (yPos + 10) 55;
             ops = ops @
               [SetFontSize 10, SetTextColor darkGray, SetFont ''helvetica'' ''bold'',
                Text ''BILL TO:'' 20 yPos None,
                SetFont ''helvetica'' ''normal'', SetFontSize 11];
             yPos = yPos + 6;
             st = textLine (name clientInfo) (ops, yPos);
             st = (if truthy_str (email clientInfo)
                   then textLine (email clientInfo)
                          (fst st @ [SetFontSize 9, SetTextColor lightGray], snd st)
                   else st);
             st = textLine (address clientInfo) st
         in st))"

text \<open>\<^verbatim>\<open>descriptionLines.forEach(line => { doc.text(line, 20, yPos); yPos += 5 })\<close>\<close>

fun descriptionLines :: "string list \<Rightarrow> layout \<Rightarrow> layout" where
  "descriptionLines [] st = st"
| "descriptionLines (line # rest) (ops, yPos) =
     descriptionLines rest (ops @ [Text line 20 yPos None], yPos + 5)"

definition jobBlock :: "pdf_lib \<Rightarrow> InvoiceRecord \<Rightarrow> layout \<Rightarrow> layout" where
  "jobBlock lib invoice' st =
     (case st of (ops, yPos) \<Rightarrow>
        if truthy_str (invoiceTitle invoice') \<or> truthy_str (invoiceDescription invoice') then
          (let yPos = yPos + 5;
               ops = ops @
                 [SetFontSize 9, SetTextColor lightGray, SetFont ''helvetica'' ''bold''];
               st = (if truthy_str (invoiceTitle invoice')
                     then (ops @
                             [Text ''Job/Project:'' 20 yPos None,
                              SetFontSize 10, SetTextColor darkGray,
                              SetFont ''helvetica'' ''normal'',
                              Text (or_str (invoiceTitle invoice') []) 20 (yPos + 5) None],
                           yPos + 5 + 5)
                     else (ops, yPos));
               st = (if truthy_str (invoiceDescription invoice')
                     then (let ops = fst st @ [SetFontSize 9, SetTextColor lightGray]
                           in descriptionLines
                                (splitTextToSize lib ops
                                   (or_str (invoiceDescription invoice') []) 150)
                                (ops, snd st))
                     else st)
           in st)
        else st)"

subsection \<open>Services and materials\<close>

text \<open>
  An item is a service when its description, lowercased, contains one of four words;
  a missing description counts as the empty string.
\<close>

definition isService :: "LineItem \<Rightarrow> bool" where
  "isService item =
     (let desc = toLowerCase (or_str (description item) [])
      in str_includes desc ''labor'' \<or> str_includes desc ''hour'' \<or>
         str_includes desc ''service'' \<or> str_includes desc ''time'')"

text \<open>
  \<^verbatim>\<open>lineItems.forEach\<close>: each item is pushed at the end of one of the two arrays.
\<close>

fun separateLoop ::
  "LineItem list \<Rightarrow> LineItem list \<times> LineItem list \<Rightarrow> LineItem list \<times> LineItem list" where
  "separateLoop [] (services, materials) = (services, materials)"
| "separateLoop (item # items) (services, materials) =
     (if isService item then separateLoop items (services @ [item], materials)
      else separateLoop items (services, materials @ [item]))"

definition separateItems :: "InvoiceRecord \<Rightarrow> LineItem list \<times> LineItem list" where
  "separateItems invoice' =
     (case lineItems invoice' of
        None \<Rightarrow> ([], [])
      | Some items \<Rightarrow> if 0 < length items then separateLoop items ([], []) else ([], []))"

text \<open>The numbers of one table row: both fields go through \<^verbatim>\<open>parseFloat(x || 0)\<close>.\<close>

definition itemQuantity :: "LineItem \<Rightarrow> jsnum" where
  "itemQuantity item = parseFloat (or_zero (quantity item))"

definition itemRate :: "LineItem \<Rightarrow> jsnum" where
  "itemRate item = parseFloat (or_zero (rate item))"

definition itemTotal :: "LineItem \<Rightarrow> jsnum" where
  "itemTotal item = js_mul (itemQuantity item) (itemRate item)"

definition itemRow :: "pdf_lib \<Rightarrow> LineItem \<Rightarrow> string list" where
  "itemRow lib item =
     [or_str (description item) [],
      numToString lib (itemQuantity item),
      ''$'' @ toFixed2 lib (itemRate item),
      ''$'' @ toFixed2 lib (itemTotal item)]"

text \<open>
  \<^verbatim>\<open>items.map\<close> with its side effect: every callback adds the item's total to the
  running subtotal of the section and returns the row. The same callback is written
  twice in the source, once for each section.
\<close>

fun itemRows :: "pdf_lib \<Rightarrow> LineItem list \<Rightarrow> jsnum \<Rightarrow> string list list \<times> jsnum" where
  "itemRows lib [] sectionSubtotal = ([], sectionSubtotal)"
| "itemRows lib (item # items) sectionSubtotal =
     (let (rows, final) = itemRows lib items (js_add sectionSubtotal (itemTotal item))
      in (itemRow lib item # rows, final))"

definition servicesSection :: "pdf_lib \<Rightarrow> LineItem list \<Rightarrow> layout \<Rightarrow> layout \<times> jsnum" where
  "servicesSection lib services st =
     (case st of (ops, yPos) \<Rightarrow>
        if 0 < length services then
          (let ops = ops @
                 [SetFontSize 12, SetTextColor primaryColor, SetFont ''helvetica'' ''bold'',
                  Text ''SERVICES'' 20 yPos None];
               yPos = yPos + 2;
               (serviceRows, servicesSubtotal) = itemRows lib services (Fin 0);
               ops = ops @
                 [AutoTable
                    \<lparr>startY = yPos,
                     head = [[''Description'', ''Quantity'', ''Rate'', ''Amount'']],
                     body = serviceRows\<rparr>];
               yPos = lastAutoTableFinalY lib ops + 10;
               ops = ops @
                 [SetFontSize 10, SetTextColor darkGray, SetFont ''helvetica'' ''bold'',
                  Text ''Services Subtotal:'' 135 yPos None,
                  Text (''$'' @ toFixed2 lib servicesSubtotal) 175 yPos (Some AlignRight)]
           in ((ops, yPos + 12), servicesSubtotal))
        else (st, Fin 0))"

definition materialsSection :: "pdf_lib \<Rightarrow> LineItem list \<Rightarrow> layout \<Rightarrow> layout \<times> jsnum" where
  "materialsSection lib materials st =
     (case st of (ops, yPos) \<Rightarrow>
        if 0 < length materials then
          (let ops = ops @
                 [SetFontSize 12, SetTextColor primaryColor, SetFont ''helvetica'' ''bold'',
                  Text ''MATERIALS'' 20 yPos None];
               yPos = yPos + 2;
               (materialRows, materialsSubtotal) = itemRows lib materials (Fin 0);
               ops = ops @
                 [AutoTable
                    \<lparr>startY = yPos,
                     head = [[''Description'', ''Quantity'', ''Price'', ''Amount'']],
                     body = materialRows\<rparr>];
               yPos = lastAutoTableFinalY lib ops + 10;
               ops = ops @
                 [SetFontSize 10, SetTextColor darkGray, SetFont ''helvetica'' ''bold'',
                  Text ''Materials Subtotal:'' 135 yPos None,
                  Text (''$'' @ toFixed2 lib materialsSubtotal) 175 yPos (Some AlignRight)]
           in ((ops, yPos + 12), materialsSubtotal))
        else (st, Fin 0))"

subsection \<open>Totals and footer\<close>

text \<open>
  \<^verbatim>\<open>const invoiceTotal = parseFloat(invoice.total || 0)\<close>, then the tax and the
  final total, each guarded by \<^verbatim>\<open>invoiceTotal > 0\<close>.
\<close>

definition calcInvoiceTotal :: "InvoiceRecord \<Rightarrow> jsnum" where
  "calcInvoiceTotal invoice' = parseFloat (or_zero (total invoice'))"

definition calcTaxAmount :: "jsnum \<Rightarrow> jsnum \<Rightarrow> jsnum" where
  "calcTaxAmount invoiceTotal subtotal =
     (if js_gt invoiceTotal (Fin 0) \<and> js_strict_ne invoiceTotal subtotal
      then js_sub invoiceTotal subtotal
      else js_mul subtotal (Fin (10 / 100)))"

definition calcTotal :: "jsnum \<Rightarrow> jsnum \<Rightarrow> jsnum \<Rightarrow> jsnum" where
  "calcTotal invoiceTotal subtotal taxAmount =
     (if js_gt invoiceTotal (Fin 0) then invoiceTotal else js_add subtotal taxAmount)"

definition totalsBlock :: "pdf_lib \<Rightarrow> jsnum \<Rightarrow> jsnum \<Rightarrow> jsnum \<Rightarrow> layout \<Rightarrow> layout" where
  "totalsBlock lib subtotal taxAmount totalDue st =
     (case st of (ops, yPos) \<Rightarrow>
        (let yPos = yPos + 15;
             ops = ops @ [SetDrawColor (200, 200, 200), Line 120 yPos 190 yPos];
             yPos = yPos + 10;
             ops = ops @
               [SetFontSize 10, SetTextColor darkGray, SetFont ''helvetica'' ''normal'',
                Text ''Subtotal:'' 135 yPos None,
                Text (''$'' @ toFixed2 lib subtotal) 175 yPos (Some AlignRight)];
             st = (if js_gt taxAmount (Fin 0)
                   then (ops @
                           [Text ''Tax:'' 135 (yPos + 8) None,
                            Text (''$'' @ toFixed2 lib taxAmount) 175 (yPos + 8)
                              (Some AlignRight)],
                         yPos + 8)
                   else (ops, yPos));
             yPos = snd st + 10;
             ops = fst st @
               [SetDrawColor primaryColor, SetLineWidth (5 / 10),
                Line 120 (yPos - 2) 190 (yPos - 2),
                SetFontSize 14, SetFont ''helvetica'' ''bold'', SetTextColor primaryColor,
                Text ''TOTAL:'' 135 (yPos + 3) None,
                Text (''$'' @ toFixed2 lib totalDue) 175 (yPos + 3) (Some AlignRight)]
         in (ops, yPos)))"

definition footerBlock :: "pdf_lib \<Rightarrow> BusinessProfile \<Rightarrow> pdf_op list \<Rightarrow> pdf_op list" where
  "footerBlock lib businessInfo ops =
     (let h = pageHeight lib ops;
          ops = ops @
            [SetFontSize 9, SetTextColor lightGray, SetFont ''helvetica'' ''italic'',
             Text ''Thank you for your business!'' 105 (h - 20) (Some AlignCenter)]
      in if truthy_str (businessName businessInfo)
         then ops @
                [SetFont ''helvetica'' ''normal'',
                 Text (''Generated by '' @ or_str (businessName businessInfo) [])
                   105 (h - 15) (Some AlignCenter)]
         else ops)"

subsection \<open>The whole function\<close>

text \<open>
  The values of the function's local variables when it returns, the document among
  them.
\<close>

record frame =
  v_doc :: "pdf_op list"
  v_invoice :: InvoiceRecord
  v_businessInfo :: BusinessProfile
  v_clientInfo :: ClientProfile
  v_services :: "LineItem list"
  v_materials :: "LineItem list"
  v_servicesSubtotal :: jsnum
  v_materialsSubtotal :: jsnum
  v_subtotal :: jsnum
  v_invoiceTotal :: jsnum
  v_taxAmount :: jsnum
  v_total :: jsnum

text \<open>The body of the function once its three arguments are resolved.\<close>

definition composeDocument ::
  "pdf_lib \<Rightarrow> InvoiceRecord \<Rightarrow> BusinessProfile \<Rightarrow> ClientProfile \<Rightarrow> frame" where
  "composeDocument lib invoice' businessInfo clientInfo =
     (let st = headerBlock businessInfo;
          st = (invoiceMetaBlock lib invoice' (fst st), snd st);
          st = billToBlock clientInfo st;
          st = jobBlock lib invoice' st;
          st = (fst st, snd st + 10);
          (services, materials) = separateItems invoice';
          (st, servicesSubtotal) = servicesSection lib services st;
          (st, materialsSubtotal) = materialsSection lib materials st;
          subtotal = js_add servicesSubtotal materialsSubtotal;
          invoiceTotal = calcInvoiceTotal invoice';
          taxAmount = calcTaxAmount invoiceTotal subtotal;
          totalDue = calcTotal invoiceTotal subtotal taxAmount;
          st = totalsBlock lib subtotal taxAmount totalDue st;
          ops = footerBlock lib businessInfo (fst st)
      in \<lparr>v_doc = ops, v_invoice = invoice', v_businessInfo = businessInfo,
          v_clientInfo = clientInfo, v_services = services, v_materials = materials,
          v_servicesSubtotal = servicesSubtotal, v_materialsSubtotal = materialsSubtotal,
          v_subtotal = subtotal, v_invoiceTotal = invoiceTotal, v_taxAmount = taxAmount,
          v_total = totalDue\<rparr>)"

text \<open>
  \<^verbatim>\<open>const invoice = invoiceData.invoice || invoiceData\<close>,
  \<^verbatim>\<open>const businessInfo = invoiceData.user || user || {}\<close>,
  \<^verbatim>\<open>const clientInfo = invoiceData.client || client || {}\<close>.
\<close>

definition createPDFDocument_frame ::
  "pdf_lib \<Rightarrow> InvoiceData \<Rightarrow> BusinessProfile option \<Rightarrow> ClientProfile option \<Rightarrow> frame" where
  "createPDFDocument_frame lib invoiceData userArg clientArg =
     (let invoice' = or_obj (invoice invoiceData) (InvoiceRecord.truncate invoiceData);
          businessInfo = or_obj (user invoiceData) (or_obj userArg emptyBusiness);
          clientInfo = or_obj (client invoiceData) (or_obj clientArg emptyClient)
      in composeDocument lib invoice' businessInfo clientInfo)"

definition createPDFDocument ::
  "pdf_lib \<Rightarrow> InvoiceData \<Rightarrow> BusinessProfile option \<Rightarrow> ClientProfile option \<Rightarrow> pdf_op list" where
  "createPDFDocument lib invoiceData userArg clientArg =
     v_doc (createPDFDocument_frame lib invoiceData userArg clientArg)"

section \<open>The two entry points\<close>

text \<open>\<^verbatim>\<open>doc.save(name)\<close>: the document handed to the library under a file name.\<close>

record saved =
  fileName :: string
  fileDoc :: "pdf_op list"

definition generatePDF ::
  "pdf_lib \<Rightarrow> InvoiceData \<Rightarrow> BusinessProfile option \<Rightarrow> ClientProfile option \<Rightarrow> saved" where
  "generatePDF lib invoiceData userArg clientArg =
     (let doc = createPDFDocument lib invoiceData userArg clientArg;
          invoice' = or_obj (invoice invoiceData) (InvoiceRecord.truncate invoiceData);
          number = or_str (invoiceNumber invoice') ''Draft''
      in \<lparr>fileName = ''Invoice-'' @ number @ ''.pdf'', fileDoc = doc\<rparr>)"




section \<open>Reading a document\<close>

text \<open>
  What a document shows is read off its calls: the texts printed in a given column, in
  the order they are printed, and the tables. The labels of the subtotal, tax and total
  lines are printed at \<open>x = 135\<close>, their amounts at \<open>x = 175\<close>, the footer at
  \<open>x = 105\<close>.
\<close>

fun textAt :: "real \<Rightarrow> pdf_op \<Rightarrow> string list" where
  "textAt x (Text s x' y a) = (if x' = x then [s] else [])"
| "textAt x (SetFontSize n) = []"
| "textAt x (SetTextColor c) = []"
| "textAt x (SetFont f w) = []"
| "textAt x (SetDrawColor c) = []"
| "textAt x (SetLineWidth n) = []"
| "textAt x (Line a b c d) = []"
| "textAt x (AutoTable t) = []"

definition textsAt :: "real \<Rightarrow> pdf_op list \<Rightarrow> string list" where
  "textsAt x ops = concat (map (textAt x) ops)"

fun tableOf :: "pdf_op \<Rightarrow> table list" where
  "tableOf (AutoTable t) = [t]"
| "tableOf (Text s x y a) = []"
| "tableOf (SetFontSize n) = []"
| "tableOf (SetTextColor c) = []"
| "tableOf (SetFont f w) = []"
| "tableOf (SetDrawColor c) = []"
| "tableOf (SetLineWidth n) = []"
| "tableOf (Line a b c d) = []"

definition tablesOf :: "pdf_op list \<Rightarrow> table list" where
  "tablesOf ops = concat (map tableOf ops)"

section \<open>A sample library and sample inputs\<close>

text \<open>
  To run the model on concrete invoices the library parameter is instantiated: numbers
  print in decimal from their exact value, dates print as they are given, text is never
  wrapped, a table ends ten units below its start per row (heading included), the page
  is 297 units high, and the data URI carries the number of calls in place of the
  encoded bytes.
\<close>

definition digitChar :: "nat \<Rightarrow> char" where
  "digitChar d = ''0123456789'' ! (d mod 10)"

function natToString :: "nat \<Rightarrow> string" where
  "natToString n =
     (if n < 10 then [digitChar n] else natToString (n div 10) @ [digitChar (n mod 10)])"
  by pat_completeness auto
termination
  by (relation "measure id") auto

definition fixed2 :: "real \<Rightarrow> string" where
  "fixed2 x =
     (let n = nat \<lfloor>x * 100 + 1 / 2\<rfloor>
      in natToString (n div 100) @ ''.'' @
         [digitChar (n mod 100 div 10), digitChar (n mod 10)])"

definition sampleToFixed2 :: "jsnum \<Rightarrow> string" where
  "sampleToFixed2 n =
     (case n of
        Fin x \<Rightarrow> if x < 0 then ''-'' @ fixed2 (- x) else fixed2 x
      | PInf \<Rightarrow> ''Infinity''
      | NInf \<Rightarrow> ''-Infinity''
      | NaN \<Rightarrow> ''NaN'')"

fun fracDigits :: "nat \<Rightarrow> real \<Rightarrow> string" where
  "fracDigits 0 x = []"
| "fracDigits (Suc k) x =
     (if x = 0 then []
      else (let d = nat \<lfloor>x * 10\<rfloor> in digitChar d # fracDigits k (x * 10 - real d)))"

definition sampleNumToString :: "jsnum \<Rightarrow> string" where
  "sampleNumToString n =
     (case n of
        Fin x \<Rightarrow>
          (let a = \<bar>x\<bar>; ip = nat \<lfloor>a\<rfloor>; fr = a - real ip
           in (if x < 0 then ''-'' else []) @ natToString ip @
              (if fr = 0 then [] else ''.'' @ fracDigits 17 fr))
      | PInf \<Rightarrow> ''Infinity''
      | NInf \<Rightarrow> ''-Infinity''
      | NaN \<Rightarrow> ''NaN'')"

definition sampleFinalY :: "pdf_op list \<Rightarrow> real" where
  "sampleFinalY ops =
     (case rev (tablesOf ops) of
        [] \<Rightarrow> 0
      | t # ts \<Rightarrow> startY t + 10 * (real (length (body t)) + 1))"

definition sampleLib :: pdf_lib where
  "sampleLib =
     \<lparr>toFixed2 = sampleToFixed2,
      numToString = sampleNumToString,
      toLocaleDateString = (\<lambda>d. d),
      splitTextToSize = (\<lambda>ops s w. [s]),
      lastAutoTableFinalY = sampleFinalY,
      pageHeight = (\<lambda>ops. 297),
      outputDataUriString =
        (\<lambda>ops. ''data:application/pdf;filename=generated.pdf;base64,'' @
                natToString (length ops))\<rparr>"

text \<open>An invoice passed unwrapped, with only its total and its line items set.\<close>

definition bareInvoice :: "jsfield \<Rightarrow> LineItem list option \<Rightarrow> InvoiceData" where
  "bareInvoice t items =
     \<lparr>invoiceNumber = None, issueDate = None, dueDate = None, status = None,
      invoiceTitle = None, invoiceDescription = None, total = t, lineItems = items,
      invoice = None, user = None, client = None\<rparr>"

definition laborItem :: LineItem where
  "laborItem =
     \<lparr>description = Some ''2 hours labor'', quantity = NumV (Fin 2), rate = NumV (Fin 50),
      amount = Absent\<rparr>"

definition paintItem :: LineItem where
  "paintItem =
     \<lparr>description = Some ''Paint'', quantity = StrV ''3'', rate = StrV ''12.50'',
      amount = NumV (Fin 1)\<rparr>"

definition badItem :: LineItem where
  "badItem =
     \<lparr>description = Some ''Paint'', quantity = StrV ''abc'', rate = NumV (Fin 5),
      amount = Absent\<rparr>"


text \<open>
  The same input with the \<^verbatim>\<open>amount\<close> carried by every line item replaced, wherever
  the line items are: in the record passed directly and in the wrapped one.
\<close>

definition replaceAmounts :: "(LineItem \<Rightarrow> jsfield) \<Rightarrow> InvoiceRecord \<Rightarrow> InvoiceRecord" where
  "replaceAmounts g invoice' =
     invoice'\<lparr>lineItems :=
       map_option (map (\<lambda>item. item\<lparr>amount := g item\<rparr>)) (lineItems invoice')\<rparr>"

definition replaceAmountsData :: "(LineItem \<Rightarrow> jsfield) \<Rightarrow> InvoiceData \<Rightarrow> InvoiceData" where
  "replaceAmountsData g invoiceData =
     invoiceData\<lparr>lineItems :=
         map_option (map (\<lambda>item. item\<lparr>amount := g item\<rparr>)) (lineItems invoiceData),
       invoice := map_option (replaceAmounts g) (invoice invoiceData)\<rparr>"

section \<open>Properties of the pieces\<close>

subsection \<open>Substring search, classification loop, table rows\<close>

lemma starts_with_iff: "starts_with s k \<longleftrightarrow> (\<exists>post. s = k @ post)"
  by (induction s k rule: starts_with.induct) auto

lemma str_includes_iff: "str_includes s k \<longleftrightarrow> (\<exists>pre post. s = pre @ k @ post)"
proof (induction s)
  case Nil
  then show ?case by auto
next
  case (Cons c cs)
  show ?case
  proof
    assume "str_includes (c # cs) k"
    then consider "starts_with (c # cs) k" | "str_includes cs k" by auto
    then show "\<exists>pre post. c # cs = pre @ k @ post"
    proof cases
      case 1
      then obtain post where "c # cs = k @ post" by (auto simp: starts_with_iff)
      then have "c # cs = [] @ k @ post" by simp
      then show ?thesis by blast
    next
      case 2
      then obtain pre post where "cs = pre @ k @ post" using Cons.IH by auto
      then have "c # cs = (c # pre) @ k @ post" by simp
      then show ?thesis by blast
    qed
  next
    assume "\<exists>pre post. c # cs = pre @ k @ post"
    then obtain pre post where e: "c # cs = pre @ k @ post" by blast
    show "str_includes (c # cs) k"
    proof (cases pre)
      case Nil
      with e have "starts_with (c # cs) k" by (auto simp: starts_with_iff)
      then show ?thesis by simp
    next
      case (Cons p ps)
      with e have "cs = ps @ k @ post" by simp
      then have "str_includes cs k" using Cons.IH by blast
      then show ?thesis by simp
    qed
  qed
qed

lemma separateLoop_filter:
  "separateLoop items (services, materials) =
     (services @ filter isService items, materials @ filter (\<lambda>i. \<not> isService i) items)"
  by (induction items arbitrary: services materials) auto

lemma itemRows_fst: "fst (itemRows lib items s) = map (itemRow lib) items"
  by (induction items arbitrary: s) (simp_all add: split_beta)

lemma itemRows_snd: "snd (itemRows lib items s) = foldl js_add s (map itemTotal items)"
  by (induction items arbitrary: s) (simp_all add: split_beta)


subsection \<open>Local variables of the function at its return\<close>

lemma servicesSection_snd:
  "snd (servicesSection lib services st) = foldl js_add (Fin 0) (map itemTotal services)"
  by (cases st) (simp add: servicesSection_def Let_def itemRows_snd split_beta)

lemma materialsSection_snd:
  "snd (materialsSection lib materials st) = foldl js_add (Fin 0) (map itemTotal materials)"
  by (cases st) (simp add: materialsSection_def Let_def itemRows_snd split_beta)

lemma frame_invoice: "v_invoice (composeDocument lib i b c) = i"
  and frame_businessInfo: "v_businessInfo (composeDocument lib i b c) = b"
  and frame_clientInfo: "v_clientInfo (composeDocument lib i b c) = c"
  and frame_services: "v_services (composeDocument lib i b c) = fst (separateItems i)"
  and frame_materials: "v_materials (composeDocument lib i b c) = snd (separateItems i)"
  by (simp_all add: composeDocument_def Let_def split_beta)

lemma frame_servicesSubtotal:
  "v_servicesSubtotal (composeDocument lib i b c) =
     foldl js_add (Fin 0) (map itemTotal (fst (separateItems i)))"
  by (simp add: composeDocument_def Let_def servicesSection_snd split_beta)

lemma frame_materialsSubtotal:
  "v_materialsSubtotal (composeDocument lib i b c) =
     foldl js_add (Fin 0) (map itemTotal (snd (separateItems i)))"
  by (simp add: composeDocument_def Let_def materialsSection_snd split_beta)

lemma frame_subtotal:
  "v_subtotal (composeDocument lib i b c) =
     js_add (v_servicesSubtotal (composeDocument lib i b c))
       (v_materialsSubtotal (composeDocument lib i b c))"
  by (simp add: composeDocument_def Let_def split_beta)

lemma frame_invoiceTotal:
  "v_invoiceTotal (composeDocument lib i b c) = calcInvoiceTotal i"
  by (simp add: composeDocument_def Let_def split_beta)

lemma frame_taxAmount:
  "v_taxAmount (composeDocument lib i b c) =
     calcTaxAmount (v_invoiceTotal (composeDocument lib i b c))
       (v_subtotal (composeDocument lib i b c))"
  by (simp add: composeDocument_def Let_def split_beta)

lemma frame_total:
  "v_total (composeDocument lib i b c) =
     calcTotal (v_invoiceTotal (composeDocument lib i b c))
       (v_subtotal (composeDocument lib i b c)) (v_taxAmount (composeDocument lib i b c))"
  by (simp add: composeDocument_def Let_def split_beta)

subsection \<open>What each block adds to the document\<close>

lemma textsAt_simps [simp]:
  "textsAt x [] = []"
  "textsAt x (op # ops) = textAt x op @ textsAt x ops"
  "textsAt x (ops @ ops') = textsAt x ops @ textsAt x ops'"
  by (simp_all add: textsAt_def)

lemma tablesOf_simps [simp]:
  "tablesOf [] = []"
  "tablesOf (op # ops) = tableOf op @ tablesOf ops"
  "tablesOf (ops @ ops') = tablesOf ops @ tablesOf ops'"
  by (simp_all add: tablesOf_def)

lemma textLine_texts: "x \<noteq> 20 \<Longrightarrow> textsAt x (fst (textLine s st)) = textsAt x (fst st)"
  by (cases st) (simp add: textLine_def)

lemma textLine_tables: "tablesOf (fst (textLine s st)) = tablesOf (fst st)"
  by (cases st) (simp add: textLine_def)

lemma headerBlock_texts: "x \<noteq> 20 \<Longrightarrow> textsAt x (fst (headerBlock b)) = []"
  by (simp add: headerBlock_def Let_def textLine_texts)

lemma headerBlock_tables: "tablesOf (fst (headerBlock b)) = []"
  by (simp add: headerBlock_def Let_def textLine_tables)

lemma invoiceMetaBlock_texts:
  "x \<noteq> 150 \<Longrightarrow> textsAt x (invoiceMetaBlock lib i ops) = textsAt x ops"
  by (simp add: invoiceMetaBlock_def Let_def)

lemma invoiceMetaBlock_tables: "tablesOf (invoiceMetaBlock lib i ops) = tablesOf ops"
  by (simp add: invoiceMetaBlock_def Let_def)

lemma billToBlock_texts:
  "x \<noteq> 20 \<Longrightarrow> textsAt x (fst (billToBlock c st)) = textsAt x (fst st)"
  by (cases st) (simp add: billToBlock_def Let_def textLine_texts)

lemma billToBlock_tables: "tablesOf (fst (billToBlock c st)) = tablesOf (fst st)"
  by (cases st) (simp add: billToBlock_def Let_def textLine_tables)

lemma descriptionLines_texts:
  "x \<noteq> 20 \<Longrightarrow> textsAt x (fst (descriptionLines ls st)) = textsAt x (fst st)"
  by (induction ls st rule: descriptionLines.induct) simp_all

lemma descriptionLines_tables: "tablesOf (fst (descriptionLines ls st)) = tablesOf (fst st)"
  by (induction ls st rule: descriptionLines.induct) simp_all

lemma jobBlock_texts:
  "x \<noteq> 20 \<Longrightarrow> textsAt x (fst (jobBlock lib i st)) = textsAt x (fst st)"
  by (cases st) (simp add: jobBlock_def Let_def descriptionLines_texts)

lemma jobBlock_tables: "tablesOf (fst (jobBlock lib i st)) = tablesOf (fst st)"
  by (cases st) (simp add: jobBlock_def Let_def descriptionLines_tables)


lemma servicesSection_texts:
  "x \<noteq> 20 \<Longrightarrow>
   textsAt x (fst (fst (servicesSection lib sv st))) =
     textsAt x (fst st) @
       (if sv = [] then []
        else (if x = 135 then [''Services Subtotal:''] else []) @
             (if x = 175
              then [''$'' @ toFixed2 lib (foldl js_add (Fin 0) (map itemTotal sv))]
              else []))"
  by (cases st) (simp add: servicesSection_def Let_def split_beta itemRows_snd)

lemma servicesSection_tables:
  "tablesOf (fst (fst (servicesSection lib sv st))) =
     tablesOf (fst st) @
       (if sv = [] then []
        else [\<lparr>startY = snd st + 2,
               head = [[''Description'', ''Quantity'', ''Rate'', ''Amount'']],
               body = map (itemRow lib) sv\<rparr>])"
  by (cases st) (simp add: servicesSection_def Let_def split_beta itemRows_fst)

lemma materialsSection_texts:
  "x \<noteq> 20 \<Longrightarrow>
   textsAt x (fst (fst (materialsSection lib ms st))) =
     textsAt x (fst st) @
       (if ms = [] then []
        else (if x = 135 then [''Materials Subtotal:''] else []) @
             (if x = 175
              then [''$'' @ toFixed2 lib (foldl js_add (Fin 0) (map itemTotal ms))]
              else []))"
  by (cases st) (simp add: materialsSection_def Let_def split_beta itemRows_snd)

lemma materialsSection_tables:
  "tablesOf (fst (fst (materialsSection lib ms st))) =
     tablesOf (fst st) @
       (if ms = [] then []
        else [\<lparr>startY = snd st + 2,
               head = [[''Description'', ''Quantity'', ''Price'', ''Amount'']],
               body = map (itemRow lib) ms\<rparr>])"
  by (cases st) (simp add: materialsSection_def Let_def split_beta itemRows_fst)

lemma totalsBlock_texts:
  "textsAt x (fst (totalsBlock lib sub tax tot st)) =
     textsAt x (fst st) @
       (if x = 135
        then [''Subtotal:''] @ (if js_gt tax (Fin 0) then [''Tax:''] else []) @ [''TOTAL:'']
        else if x = 175
        then [''$'' @ toFixed2 lib sub] @
             (if js_gt tax (Fin 0) then [''$'' @ toFixed2 lib tax] else []) @
             [''$'' @ toFixed2 lib tot]
        else [])"
  by (cases st) (simp add: totalsBlock_def Let_def)

lemma totalsBlock_tables:
  "tablesOf (fst (totalsBlock lib sub tax tot st)) = tablesOf (fst st)"
  by (cases st) (simp add: totalsBlock_def Let_def)

lemma footerBlock_texts:
  "textsAt x (footerBlock lib b ops) =
     textsAt x ops @
       (if x = 105
        then [''Thank you for your business!''] @
             (if truthy_str (businessName b)
              then [''Generated by '' @ or_str (businessName b) []] else [])
        else [])"
  by (simp add: footerBlock_def Let_def)

lemma footerBlock_tables: "tablesOf (footerBlock lib b ops) = tablesOf ops"
  by (simp add: footerBlock_def Let_def)

subsection \<open>What the whole document shows\<close>

lemmas block_texts =
  headerBlock_texts invoiceMetaBlock_texts billToBlock_texts jobBlock_texts
  servicesSection_texts materialsSection_texts totalsBlock_texts footerBlock_texts

lemmas block_tables =
  headerBlock_tables invoiceMetaBlock_tables billToBlock_tables jobBlock_tables
  servicesSection_tables materialsSection_tables totalsBlock_tables footerBlock_tables

lemma doc_labels:
  "textsAt 135 (v_doc (composeDocument lib i b c)) =
     (if fst (separateItems i) = [] then [] else [''Services Subtotal:'']) @
     (if snd (separateItems i) = [] then [] else [''Materials Subtotal:'']) @
     [''Subtotal:''] @
     (if js_gt (v_taxAmount (composeDocument lib i b c)) (Fin 0) then [''Tax:''] else []) @
     [''TOTAL:'']"
  by (simp add: composeDocument_def Let_def split_beta block_texts)

lemma doc_amounts:
  "textsAt 175 (v_doc (composeDocument lib i b c)) =
     (if fst (separateItems i) = [] then []
      else [''$'' @ toFixed2 lib (v_servicesSubtotal (composeDocument lib i b c))]) @
     (if snd (separateItems i) = [] then []
      else [''$'' @ toFixed2 lib (v_materialsSubtotal (composeDocument lib i b c))]) @
     [''$'' @ toFixed2 lib (v_subtotal (composeDocument lib i b c))] @
     (if js_gt (v_taxAmount (composeDocument lib i b c)) (Fin 0)
      then [''$'' @ toFixed2 lib (v_taxAmount (composeDocument lib i b c))] else []) @
     [''$'' @ toFixed2 lib (v_total (composeDocument lib i b c))]"
  by (simp add: composeDocument_def Let_def split_beta block_texts servicesSection_snd
      materialsSection_snd)

lemma doc_footer:
  "textsAt 105 (v_doc (composeDocument lib i b c)) =
     [''Thank you for your business!''] @
     (if truthy_str (businessName b)
      then [''Generated by '' @ or_str (businessName b) []] else [])"
  by (simp add: composeDocument_def Let_def split_beta block_texts)

lemma doc_tables:
  "map (\<lambda>t. (head t, body t)) (tablesOf (v_doc (composeDocument lib i b c))) =
     (if fst (separateItems i) = [] then []
      else [([[''Description'', ''Quantity'', ''Rate'', ''Amount'']],
             map (itemRow lib) (fst (separateItems i)))]) @
     (if snd (separateItems i) = [] then []
      else [([[''Description'', ''Quantity'', ''Price'', ''Amount'']],
             map (itemRow lib) (snd (separateItems i)))])"
  by (simp add: composeDocument_def Let_def split_beta block_tables)

subsection \<open>Every block appends to the document\<close>

lemma textLine_prefix: "prefix (fst st) (fst (textLine s st))"
  by (cases st) (simp add: textLine_def)

lemma headerBlock_prefix:
  "prefix
     [SetFontSize 24, SetTextColor darkGray, SetFont ''helvetica'' ''bold'',
      Text (or_str (businessName b) ''Invoice'') 20 25 None]
     (fst (headerBlock b))"
proof -
  let ?st0 = "([SetFontSize 24, SetTextColor darkGray, SetFont ''helvetica'' ''bold'',
      Text (or_str (businessName b) ''Invoice'') 20 25 None,
      SetFontSize 10, SetFont ''helvetica'' ''normal'', SetTextColor lightGray], 32 :: real)"
  let ?st1 = "textLine (businessAddress b) ?st0"
  let ?st2 = "textLine (businessPhone b) ?st1"
  let ?st3 = "textLine (businessEmail b) ?st2"
  have "prefix (fst ?st0) (fst ?st1)" by (rule textLine_prefix)
  also have "prefix (fst ?st1) (fst ?st2)" by (rule textLine_prefix)
  also have "prefix (fst ?st2) (fst ?st3)" by (rule textLine_prefix)
  finally have "prefix (fst ?st0) (fst (headerBlock b))"
    by (simp add: headerBlock_def Let_def)
  moreover have
    "prefix [SetFontSize 24, SetTextColor darkGray, SetFont ''helvetica'' ''bold'',
      Text (or_str (businessName b) ''Invoice'') 20 25 None] (fst ?st0)"
    by simp
  ultimately show ?thesis by (rule prefix_order.trans [rotated])
qed

lemma invoiceMetaBlock_prefix: "prefix ops (invoiceMetaBlock lib i ops)"
  by (simp add: invoiceMetaBlock_def Let_def)

lemma billToBlock_prefix: "prefix (fst st) (fst (billToBlock c st))"
proof (cases st)
  case (Pair ops y)
  let ?y = "max (y + 10) 55"
  let ?ops = "ops @ [SetFontSize 10, SetTextColor darkGray, SetFont ''helvetica'' ''bold'',
                Text ''BILL TO:'' 20 ?y None,
                SetFont ''helvetica'' ''normal'', SetFontSize 11]"
  let ?st1 = "textLine (name c) (?ops, ?y + 6)"
  let ?st2 = "if truthy_str (email c)
              then textLine (email c) (fst ?st1 @ [SetFontSize 9, SetTextColor lightGray], snd ?st1)
              else ?st1"
  let ?st3 = "textLine (address c) ?st2"
  have "prefix ops (fst ?st1)"
    using textLine_prefix [of "(?ops, ?y + 6)" "name c"] by (auto simp: prefix_def)
  also have "prefix (fst ?st1) (fst ?st2)"
    using textLine_prefix [of "(fst ?st1 @ [SetFontSize 9, SetTextColor lightGray], snd ?st1)" "email c"]
    by (auto simp: prefix_def)
  also have "prefix (fst ?st2) (fst ?st3)" by (rule textLine_prefix)
  finally show ?thesis using Pair by (simp add: billToBlock_def Let_def)
qed

lemma descriptionLines_prefix: "prefix (fst st) (fst (descriptionLines ls st))"
proof (induction ls st rule: descriptionLines.induct)
  case (1 st)
  then show ?case by simp
next
  case (2 line rest ops yPos)
  have "prefix ops (ops @ [Text line 20 yPos None])" by simp
  also have "prefix (ops @ [Text line 20 yPos None])
      (fst (descriptionLines rest (ops @ [Text line 20 yPos None], yPos + 5)))"
    using 2 by simp
  finally show ?case by simp
qed

lemma jobBlock_prefix: "prefix (fst st) (fst (jobBlock lib i st))"
proof (cases st)
  case (Pair ops y)
  have d: "\<And>ls ops' y'. prefix ops ops' \<Longrightarrow> prefix ops (fst (descriptionLines ls (ops', y')))"
    using descriptionLines_prefix prefix_order.trans by fastforce
  show ?thesis using Pair
    by (auto simp add: jobBlock_def Let_def intro!: d)
qed

lemma servicesSection_prefix: "prefix (fst st) (fst (fst (servicesSection lib sv st)))"
  by (cases st) (simp add: servicesSection_def Let_def split_beta)

lemma materialsSection_prefix: "prefix (fst st) (fst (fst (materialsSection lib ms st)))"
  by (cases st) (simp add: materialsSection_def Let_def split_beta)

lemma totalsBlock_prefix: "prefix (fst st) (fst (totalsBlock lib sub tax tot st))"
  by (cases st) (simp add: totalsBlock_def Let_def)

lemma footerBlock_prefix: "prefix ops (footerBlock lib b ops)"
  by (simp add: footerBlock_def Let_def)

lemma doc_header:
  "prefix
     [SetFontSize 24, SetTextColor darkGray, SetFont ''helvetica'' ''bold'',
      Text (or_str (businessName b) ''Invoice'') 20 25 None]
     (v_doc (composeDocument lib i b c))"
proof -
  let ?s1 = "headerBlock b"
  let ?s2 = "(invoiceMetaBlock lib i (fst ?s1), snd ?s1)"
  let ?s3 = "billToBlock c ?s2"
  let ?s4 = "jobBlock lib i ?s3"
  let ?s5 = "(fst ?s4, snd ?s4 + 10)"
  let ?s6 = "fst (servicesSection lib (fst (separateItems i)) ?s5)"
  let ?s7 = "fst (materialsSection lib (snd (separateItems i)) ?s6)"
  let ?f = "composeDocument lib i b c"
  let ?s8 = "totalsBlock lib (v_subtotal ?f) (v_taxAmount ?f) (v_total ?f) ?s7"
  have "prefix (fst ?s1) (fst ?s2)" by (simp add: invoiceMetaBlock_prefix)
  also have "prefix (fst ?s2) (fst ?s3)" by (rule billToBlock_prefix)
  also have "prefix (fst ?s3) (fst ?s4)" by (rule jobBlock_prefix)
  also have "fst ?s4 = fst ?s5" by simp
  also have "prefix (fst ?s5) (fst ?s6)" by (rule servicesSection_prefix)
  also have "prefix (fst ?s6) (fst ?s7)" by (rule materialsSection_prefix)
  also have "prefix (fst ?s7) (fst ?s8)" by (rule totalsBlock_prefix)
  also have "prefix (fst ?s8) (footerBlock lib b (fst ?s8))" by (rule footerBlock_prefix)
  also have "footerBlock lib b (fst ?s8) = v_doc ?f"
    by (simp add: composeDocument_def Let_def split_beta)
  finally have "prefix (fst (headerBlock b)) (v_doc ?f)" .
  with headerBlock_prefix [of b] show ?thesis by (rule prefix_order.trans)
qed

subsection \<open>The function on its arguments, and on the sample inputs\<close>

lemma js_gt_zero_strict_ne: "js_gt t (Fin 0) \<Longrightarrow> js_strict_ne t s \<longleftrightarrow> t \<noteq> s"
  by (cases t) (auto simp: js_strict_ne_def)

lemma frame_unwrap:
  "createPDFDocument_frame lib d u c =
     composeDocument lib (or_obj (invoice d) (InvoiceRecord.truncate d))
       (or_obj (user d) (or_obj u emptyBusiness)) (or_obj (client d) (or_obj c emptyClient))"
  by (simp add: createPDFDocument_frame_def Let_def)

lemma bareInvoice_resolved:
  "or_obj (invoice (bareInvoice t items)) (InvoiceRecord.truncate (bareInvoice t items)) =
     \<lparr>invoiceNumber = None, issueDate = None, dueDate = None, status = None,
      invoiceTitle = None, invoiceDescription = None, total = t, lineItems = items\<rparr>"
  by (simp add: bareInvoice_def or_obj_def InvoiceRecord.truncate_def)

lemma isService_laborItem: "isService laborItem"
  by code_simp

lemma isService_paintItem: "\<not> isService paintItem"
  by code_simp

lemma isService_badItem: "\<not> isService badItem"
  by code_simp


lemma itemTotal_laborItem: "itemTotal laborItem = Fin 100"
  by (simp add: itemTotal_def itemQuantity_def itemRate_def laborItem_def or_zero_def
      parseFloat_def truthy_num_def)

lemma parseFloat_str_abc: "parseFloat_str ''abc'' = NaN"
  by code_simp



lemma bare_invoice:
  "total (v_invoice (createPDFDocument_frame lib (bareInvoice t items) None None)) = t"
  "lineItems (v_invoice (createPDFDocument_frame lib (bareInvoice t items) None None)) = items"
  "v_invoiceTotal (createPDFDocument_frame lib (bareInvoice t items) None None) =
     parseFloat (or_zero t)"
  by (simp_all add: frame_unwrap bareInvoice_resolved frame_invoice frame_invoiceTotal
      calcInvoiceTotal_def)

lemma bare_labor_subtotal:
  "v_subtotal (createPDFDocument_frame lib (bareInvoice t (Some [laborItem])) None None) =
     Fin 100"
  by (simp add: frame_unwrap bareInvoice_resolved frame_subtotal frame_servicesSubtotal
      frame_materialsSubtotal separateItems_def isService_laborItem itemTotal_laborItem)

lemma cframe_taxAmount:
  "v_taxAmount (createPDFDocument_frame lib d u c) =
     calcTaxAmount (v_invoiceTotal (createPDFDocument_frame lib d u c))
       (v_subtotal (createPDFDocument_frame lib d u c))"
  unfolding frame_unwrap by (rule frame_taxAmount)

lemma cframe_total:
  "v_total (createPDFDocument_frame lib d u c) =
     calcTotal (v_invoiceTotal (createPDFDocument_frame lib d u c))
       (v_subtotal (createPDFDocument_frame lib d u c))
       (v_taxAmount (createPDFDocument_frame lib d u c))"
  unfolding frame_unwrap by (rule frame_total)

lemma cframe_invoiceTotal:
  "v_invoiceTotal (createPDFDocument_frame lib d u c) =
     parseFloat (or_zero (total (v_invoice (createPDFDocument_frame lib d u c))))"
  unfolding frame_unwrap by (simp add: frame_invoiceTotal frame_invoice calcInvoiceTotal_def)

lemma cframe_services:
  "v_services (createPDFDocument_frame lib d u c) =
     fst (separateItems (v_invoice (createPDFDocument_frame lib d u c)))"
  unfolding frame_unwrap by (simp add: frame_services frame_invoice)

lemma cframe_materials:
  "v_materials (createPDFDocument_frame lib d u c) =
     snd (separateItems (v_invoice (createPDFDocument_frame lib d u c)))"
  unfolding frame_unwrap by (simp add: frame_materials frame_invoice)

lemma cframe_servicesSubtotal:
  "v_servicesSubtotal (createPDFDocument_frame lib d u c) =
     foldl js_add (Fin 0) (map itemTotal (v_services (createPDFDocument_frame lib d u c)))"
  unfolding frame_unwrap by (simp add: frame_servicesSubtotal frame_services)

lemma cframe_materialsSubtotal:
  "v_materialsSubtotal (createPDFDocument_frame lib d u c) =
     foldl js_add (Fin 0) (map itemTotal (v_materials (createPDFDocument_frame lib d u c)))"
  unfolding frame_unwrap by (simp add: frame_materialsSubtotal frame_materials)

lemma cframe_subtotal:
  "v_subtotal (createPDFDocument_frame lib d u c) =
     js_add (v_servicesSubtotal (createPDFDocument_frame lib d u c))
       (v_materialsSubtotal (createPDFDocument_frame lib d u c))"
  unfolding frame_unwrap by (rule frame_subtotal)

lemma cdoc_labels:
  "textsAt 135 (createPDFDocument lib d u c) =
     (if v_services (createPDFDocument_frame lib d u c) = [] then []
      else [''Services Subtotal:'']) @
     (if v_materials (createPDFDocument_frame lib d u c) = [] then []
      else [''Materials Subtotal:'']) @
     [''Subtotal:''] @
     (if js_gt (v_taxAmount (createPDFDocument_frame lib d u c)) (Fin 0)
      then [''Tax:''] else []) @
     [''TOTAL:'']"
  unfolding createPDFDocument_def frame_unwrap
  by (simp add: doc_labels frame_services frame_materials)

lemma cdoc_amounts:
  "textsAt 175 (createPDFDocument lib d u c) =
     (if v_services (createPDFDocument_frame lib d u c) = [] then []
      else [''$'' @ toFixed2 lib (v_servicesSubtotal (createPDFDocument_frame lib d u c))]) @
     (if v_materials (createPDFDocument_frame lib d u c) = [] then []
      else [''$'' @ toFixed2 lib (v_materialsSubtotal (createPDFDocument_frame lib d u c))]) @
     [''$'' @ toFixed2 lib (v_subtotal (createPDFDocument_frame lib d u c))] @
     (if js_gt (v_taxAmount (createPDFDocument_frame lib d u c)) (Fin 0)
      then [''$'' @ toFixed2 lib (v_taxAmount (createPDFDocument_frame lib d u c))]
      else []) @
     [''$'' @ toFixed2 lib (v_total (createPDFDocument_frame lib d u c))]"
  unfolding createPDFDocument_def frame_unwrap
  by (simp add: doc_amounts frame_services frame_materials)

lemma cdoc_footer:
  "textsAt 105 (createPDFDocument lib d u c) =
     [''Thank you for your business!''] @
     (if truthy_str (businessName (v_businessInfo (createPDFDocument_frame lib d u c)))
      then [''Generated by '' @
              or_str (businessName (v_businessInfo (createPDFDocument_frame lib d u c))) []]
      else [])"
  unfolding createPDFDocument_def frame_unwrap
  by (simp add: doc_footer frame_businessInfo)

lemma cdoc_tables:
  "map (\<lambda>t. (head t, body t)) (tablesOf (createPDFDocument lib d u c)) =
     (if v_services (createPDFDocument_frame lib d u c) = [] then []
      else [([[''Description'', ''Quantity'', ''Rate'', ''Amount'']],
             map (itemRow lib) (v_services (createPDFDocument_frame lib d u c)))]) @
     (if v_materials (createPDFDocument_frame lib d u c) = [] then []
      else [([[''Description'', ''Quantity'', ''Price'', ''Amount'']],
             map (itemRow lib) (v_materials (createPDFDocument_frame lib d u c)))])"
  unfolding createPDFDocument_def frame_unwrap
  by (simp add: doc_tables frame_services frame_materials)

lemma cdoc_header:
  "prefix
     [SetFontSize 24, SetTextColor darkGray, SetFont ''helvetica'' ''bold'',
      Text (or_str (businessName (v_businessInfo (createPDFDocument_frame lib d u c)))
              ''Invoice'') 20 25 None]
     (createPDFDocument lib d u c)"
  unfolding createPDFDocument_def frame_unwrap
  by (simp add: doc_header frame_businessInfo)

subsection \<open>Numbers that are not numbers\<close>

lemma js_mul_NaN: "js_mul a NaN = NaN"
  by (cases a) simp_all

lemma separateItems_filter:
  "lineItems i = Some items \<Longrightarrow>
   separateItems i = (filter isService items, filter (\<lambda>x. \<not> isService x) items)"
  by (simp add: separateItems_def separateLoop_filter)

lemma separateItems_none:
  "lineItems i = None \<or> lineItems i = Some [] \<Longrightarrow> separateItems i = ([], [])"
  by (auto simp add: separateItems_def)

lemma isService_iff:
  "isService item \<longleftrightarrow>
     (\<exists>k\<in>{''labor'', ''hour'', ''service'', ''time''}.
        \<exists>pre post. toLowerCase (or_str (description item) []) = pre @ k @ post)"
  by (simp add: isService_def Let_def str_includes_iff)

lemma row_in_table:
  assumes "lineItems (v_invoice (createPDFDocument_frame lib d u c)) = Some items"
    and "item \<in> set items"
  shows "\<exists>t\<in>set (tablesOf (createPDFDocument lib d u c)). itemRow lib item \<in> set (body t)"
proof -
  let ?f = "createPDFDocument_frame lib d u c"
  let ?tabs = "tablesOf (createPDFDocument lib d u c)"
  have s: "v_services ?f = filter isService items"
    and m: "v_materials ?f = filter (\<lambda>x. \<not> isService x) items"
    using assms(1) by (simp_all add: cframe_services cframe_materials separateItems_filter)
  have "\<exists>hb\<in>set (map (\<lambda>t. (head t, body t)) ?tabs). itemRow lib item \<in> set (snd hb)"
  proof (cases "isService item")
    case True
    then have "item \<in> set (v_services ?f)" using assms(2) s by simp
    then show ?thesis unfolding cdoc_tables by auto
  next
    case False
    then have "item \<in> set (v_materials ?f)" using assms(2) m by simp
    then show ?thesis unfolding cdoc_tables by auto
  qed
  then show ?thesis by auto
qed

subsection \<open>The amount carried by an item is never read\<close>

lemma amount_ignored_item:
  "isService (item\<lparr>amount := a\<rparr>) = isService item"
  "itemTotal (item\<lparr>amount := a\<rparr>) = itemTotal item"
  "itemRow lib (item\<lparr>amount := a\<rparr>) = itemRow lib item"
  by (simp_all add: isService_def itemTotal_def itemQuantity_def itemRate_def itemRow_def)

lemma itemRows_amount:
  "itemRows lib (map (\<lambda>item. item\<lparr>amount := g item\<rparr>) items) s = itemRows lib items s"
  by (induction items arbitrary: s) (simp_all add: amount_ignored_item)

lemma servicesSection_amount:
  "servicesSection lib (map (\<lambda>item. item\<lparr>amount := g item\<rparr>) sv) st =
     servicesSection lib sv st"
  by (cases st) (simp add: servicesSection_def itemRows_amount Let_def)

lemma materialsSection_amount:
  "materialsSection lib (map (\<lambda>item. item\<lparr>amount := g item\<rparr>) ms) st =
     materialsSection lib ms st"
  by (cases st) (simp add: materialsSection_def itemRows_amount Let_def)

lemma separateLoop_amount:
  "separateLoop (map (\<lambda>item. item\<lparr>amount := g item\<rparr>) items) ([], []) =
     (map (\<lambda>item. item\<lparr>amount := g item\<rparr>) (fst (separateLoop items ([], []))),
      map (\<lambda>item. item\<lparr>amount := g item\<rparr>) (snd (separateLoop items ([], []))))"
  by (simp add: separateLoop_filter filter_map o_def amount_ignored_item)

lemma separateItems_amount:
  "separateItems (replaceAmounts g i) =
     (map (\<lambda>item. item\<lparr>amount := g item\<rparr>) (fst (separateItems i)),
      map (\<lambda>item. item\<lparr>amount := g item\<rparr>) (snd (separateItems i)))"
  by (cases "lineItems i") (simp_all add: separateItems_def replaceAmounts_def separateLoop_amount)

lemma invoiceMetaBlock_amount:
  "invoiceMetaBlock lib (replaceAmounts g i) ops = invoiceMetaBlock lib i ops"
  by (simp add: invoiceMetaBlock_def replaceAmounts_def Let_def)

lemma jobBlock_amount: "jobBlock lib (replaceAmounts g i) st = jobBlock lib i st"
  by (cases st) (simp add: jobBlock_def replaceAmounts_def Let_def)

lemma calcInvoiceTotal_amount: "calcInvoiceTotal (replaceAmounts g i) = calcInvoiceTotal i"
  by (simp add: calcInvoiceTotal_def replaceAmounts_def)

lemmas blocks_amount = invoiceMetaBlock_amount jobBlock_amount calcInvoiceTotal_amount

lemma composeDocument_amount:
  "v_doc (composeDocument lib (replaceAmounts g i) b c) = v_doc (composeDocument lib i b c)"
  by (simp add: composeDocument_def Let_def split_beta blocks_amount separateItems_amount
      servicesSection_amount materialsSection_amount)

lemma resolve_amount:
  "or_obj (invoice (replaceAmountsData g d)) (InvoiceRecord.truncate (replaceAmountsData g d)) =
     replaceAmounts g (or_obj (invoice d) (InvoiceRecord.truncate d))"
  "user (replaceAmountsData g d) = user d"
  "client (replaceAmountsData g d) = client d"
  by (cases "invoice d";
      simp add: replaceAmountsData_def replaceAmounts_def or_obj_def InvoiceRecord.truncate_def)+

lemma createPDFDocument_amount:
  "createPDFDocument lib (replaceAmountsData g d) u c = createPDFDocument lib d u c"
  unfolding createPDFDocument_def frame_unwrap resolve_amount
  by (rule composeDocument_amount)

subsection \<open>The sample library and the sample items\<close>

lemma toFixed2_sample_0: "toFixed2 sampleLib (Fin 0) = ''0.00''"
  by (simp add: sampleLib_def sampleToFixed2_def fixed2_def digitChar_def)




lemma itemTotal_badItem: "itemTotal badItem = NaN"
  by (simp add: itemTotal_def itemQuantity_def itemRate_def badItem_def or_zero_def
      parseFloat_def truthy_num_def parseFloat_str_abc)

subsection \<open>Splitting at commas\<close>





section \<open>The claims\<close>

subsection \<open>Tax amount\<close>

text \<open>
  Claim C1, as stated, takes the tax to be \<open>total - subtotal\<close> whenever the record's total
  is present, nonzero and different from the subtotal. The source tests
  \<^verbatim>\<open>invoiceTotal > 0\<close>, so a negative total is not authoritative: with a total of
  \<open>-5\<close> and one line of 2 \<times> 50 the subtotal is 100, the claim asks for a tax of
  \<open>-105\<close>, and the function computes 10.
\<close>

theorem tax_amount_negative_total:
  "total (v_invoice (createPDFDocument_frame sampleLib
       (bareInvoice (NumV (Fin (- 5))) (Some [laborItem])) None None)) = NumV (Fin (- 5)) \<and>
   v_invoiceTotal (createPDFDocument_frame sampleLib
       (bareInvoice (NumV (Fin (- 5))) (Some [laborItem])) None None) = Fin (- 5) \<and>
   v_subtotal (createPDFDocument_frame sampleLib
       (bareInvoice (NumV (Fin (- 5))) (Some [laborItem])) None None) = Fin 100 \<and>
   js_sub (Fin (- 5)) (Fin 100) = Fin (- 105) \<and>
   v_taxAmount (createPDFDocument_frame sampleLib
       (bareInvoice (NumV (Fin (- 5))) (Some [laborItem])) None None) = Fin 10"
proof -
  let ?f = "createPDFDocument_frame sampleLib
       (bareInvoice (NumV (Fin (- 5))) (Some [laborItem])) None None"
  have t: "total (v_invoice ?f) = NumV (Fin (- 5))"
    by (simp add: bare_invoice)
  have i: "v_invoiceTotal ?f = Fin (- 5)"
    by (simp add: bare_invoice or_zero_def parseFloat_def truthy_num_def)
  have s: "v_subtotal ?f = Fin 100"
    by (simp add: bare_labor_subtotal)
  have "v_taxAmount ?f = calcTaxAmount (Fin (- 5)) (Fin 100)"
    using cframe_taxAmount [of sampleLib "bareInvoice (NumV (Fin (- 5))) (Some [laborItem])" None None]
    by (simp only: i s)
  then have x: "v_taxAmount ?f = Fin 10"
    by (simp add: calcTaxAmount_def)
  have "js_sub (Fin (- 5)) (Fin 100) = Fin (- 105)"
    by (simp add: js_sub_def)
  with t i s x show ?thesis by simp
qed

text \<open>
  Claim C1, amended: the computed tax equals the parsed total minus the subtotal
  whenever the parsed total is strictly positive and differs from the subtotal; in
  every other case it equals 0.10 times the subtotal. The parsed total is
  \<^verbatim>\<open>parseFloat(invoice.total || 0)\<close>.
\<close>

theorem tax_amount_rule:
  "v_taxAmount (createPDFDocument_frame lib d u c) =
     (if js_gt (v_invoiceTotal (createPDFDocument_frame lib d u c)) (Fin 0) \<and>
         v_invoiceTotal (createPDFDocument_frame lib d u c) \<noteq>
           v_subtotal (createPDFDocument_frame lib d u c)
      then js_sub (v_invoiceTotal (createPDFDocument_frame lib d u c))
             (v_subtotal (createPDFDocument_frame lib d u c))
      else js_mul (v_subtotal (createPDFDocument_frame lib d u c)) (Fin (10 / 100))) \<and>
   v_invoiceTotal (createPDFDocument_frame lib d u c) =
     parseFloat (or_zero (total (v_invoice (createPDFDocument_frame lib d u c))))"
proof -
  let ?f = "createPDFDocument_frame lib d u c"
  have "v_taxAmount ?f = calcTaxAmount (v_invoiceTotal ?f) (v_subtotal ?f)"
    by (rule cframe_taxAmount)
  also have "\<dots> =
     (if js_gt (v_invoiceTotal ?f) (Fin 0) \<and> v_invoiceTotal ?f \<noteq> v_subtotal ?f
      then js_sub (v_invoiceTotal ?f) (v_subtotal ?f)
      else js_mul (v_subtotal ?f) (Fin (10 / 100)))"
    using js_gt_zero_strict_ne [of "v_invoiceTotal ?f" "v_subtotal ?f"]
    by (auto simp add: calcTaxAmount_def)
  finally show ?thesis using cframe_invoiceTotal [of lib d u c] by simp
qed

subsection \<open>Final total\<close>

text \<open>
  Claim C2, as stated, prints the record's total whenever it is present and nonzero. On
  the same record, with its total of \<open>-5\<close>, the function prints subtotal plus tax, 110.
\<close>

theorem final_total_negative_total:
  "total (v_invoice (createPDFDocument_frame sampleLib
       (bareInvoice (NumV (Fin (- 5))) (Some [laborItem])) None None)) = NumV (Fin (- 5)) \<and>
   v_invoiceTotal (createPDFDocument_frame sampleLib
       (bareInvoice (NumV (Fin (- 5))) (Some [laborItem])) None None) = Fin (- 5) \<and>
   v_total (createPDFDocument_frame sampleLib
       (bareInvoice (NumV (Fin (- 5))) (Some [laborItem])) None None) = Fin 110"
proof -
  let ?d = "bareInvoice (NumV (Fin (- 5))) (Some [laborItem])"
  let ?f = "createPDFDocument_frame sampleLib ?d None None"
  have t: "total (v_invoice ?f) = NumV (Fin (- 5))"
    by (simp add: bare_invoice)
  have i: "v_invoiceTotal ?f = Fin (- 5)"
    by (simp add: bare_invoice or_zero_def parseFloat_def truthy_num_def)
  have s: "v_subtotal ?f = Fin 100"
    by (simp add: bare_labor_subtotal)
  have "v_taxAmount ?f = calcTaxAmount (Fin (- 5)) (Fin 100)"
    using cframe_taxAmount [of sampleLib ?d None None] by (simp only: i s)
  then have x: "v_taxAmount ?f = Fin 10"
    by (simp add: calcTaxAmount_def)
  have "v_total ?f = calcTotal (Fin (- 5)) (Fin 100) (Fin 10)"
    using cframe_total [of sampleLib ?d None None] by (simp only: i s x)
  then have "v_total ?f = Fin 110"
    by (simp add: calcTotal_def)
  with t i show ?thesis by simp
qed

text \<open>
  Claim C2, amended: the final total equals the parsed total of the record whenever
  that is strictly positive, and the subtotal plus the computed tax otherwise; it is
  the last amount printed, on the line labelled \<^verbatim>\<open>TOTAL:\<close>.
\<close>

theorem final_total_rule:
  "v_total (createPDFDocument_frame lib d u c) =
     (if js_gt (v_invoiceTotal (createPDFDocument_frame lib d u c)) (Fin 0)
      then v_invoiceTotal (createPDFDocument_frame lib d u c)
      else js_add (v_subtotal (createPDFDocument_frame lib d u c))
             (v_taxAmount (createPDFDocument_frame lib d u c))) \<and>
   v_invoiceTotal (createPDFDocument_frame lib d u c) =
     parseFloat (or_zero (total (v_invoice (createPDFDocument_frame lib d u c)))) \<and>
   last (textsAt 135 (createPDFDocument lib d u c)) = ''TOTAL:'' \<and>
   last (textsAt 175 (createPDFDocument lib d u c)) =
     ''$'' @ toFixed2 lib (v_total (createPDFDocument_frame lib d u c))"
proof -
  let ?f = "createPDFDocument_frame lib d u c"
  have "v_total ?f =
     (if js_gt (v_invoiceTotal ?f) (Fin 0) then v_invoiceTotal ?f
      else js_add (v_subtotal ?f) (v_taxAmount ?f))"
    using cframe_total [of lib d u c] by (simp add: calcTotal_def)
  moreover have "last (textsAt 135 (createPDFDocument lib d u c)) = ''TOTAL:''"
    by (simp add: cdoc_labels)
  moreover have "last (textsAt 175 (createPDFDocument lib d u c)) =
      ''$'' @ toFixed2 lib (v_total ?f)"
    by (simp add: cdoc_amounts)
  ultimately show ?thesis using cframe_invoiceTotal [of lib d u c] by simp
qed

subsection \<open>The two entry points\<close>



theorem classification_partition:
  assumes "lineItems (v_invoice (createPDFDocument_frame lib d u c)) = Some items"
  shows "v_services (createPDFDocument_frame lib d u c) = filter isService items \<and>
     v_materials (createPDFDocument_frame lib d u c) = filter (\<lambda>x. \<not> isService x) items \<and>
     (\<forall>item. isService item \<longleftrightarrow>
        (\<exists>k\<in>{''labor'', ''hour'', ''service'', ''time''}.
           \<exists>pre post. toLowerCase (or_str (description item) []) = pre @ k @ post)) \<and>
     (\<forall>item\<in>set items.
        (item \<in> set (v_services (createPDFDocument_frame lib d u c))) \<noteq>
        (item \<in> set (v_materials (createPDFDocument_frame lib d u c))))"
proof -
  let ?f = "createPDFDocument_frame lib d u c"
  have s: "v_services ?f = filter isService items"
    using assms by (simp add: cframe_services separateItems_filter)
  have m: "v_materials ?f = filter (\<lambda>x. \<not> isService x) items"
    using assms by (simp add: cframe_materials separateItems_filter)
  have "\<forall>item\<in>set items. (item \<in> set (v_services ?f)) \<noteq> (item \<in> set (v_materials ?f))"
    unfolding s m by auto
  with s m isService_iff show ?thesis by blast
qed

text \<open>Two items, one of each kind.\<close>

theorem classification_partition_witness:
  "lineItems (v_invoice (createPDFDocument_frame sampleLib
       (bareInvoice Absent (Some [laborItem, paintItem])) None None)) =
     Some [laborItem, paintItem] \<and>
   v_services (createPDFDocument_frame sampleLib
       (bareInvoice Absent (Some [laborItem, paintItem])) None None) = [laborItem] \<and>
   v_materials (createPDFDocument_frame sampleLib
       (bareInvoice Absent (Some [laborItem, paintItem])) None None) = [paintItem]"
proof -
  let ?d = "bareInvoice Absent (Some [laborItem, paintItem])"
  have h: "lineItems (v_invoice (createPDFDocument_frame sampleLib ?d None None)) =
      Some [laborItem, paintItem]"
    by (simp add: bare_invoice)
  show ?thesis
    using h classification_partition [OF h]
    by (simp add: isService_laborItem isService_paintItem)
qed

subsection \<open>Strings that are not numbers\<close>

text \<open>
  Claim C5, as stated, has a quantity or rate that does not parse as a number count as
  0. The guard \<^verbatim>\<open>|| 0\<close> stands inside the call of \<^verbatim>\<open>parseFloat\<close>: it replaces
  a missing or empty value, and a string such as \<^verbatim>\<open>abc\<close> goes on to
  \<^verbatim>\<open>parseFloat\<close>, which returns \<open>NaN\<close>. The quantity used is then \<open>NaN\<close>, and
  so are the amount of the item and every total printed below it.
\<close>

theorem malformed_number_not_zero:
  "quantity badItem = StrV ''abc'' \<and> parseFloat_str ''abc'' = NaN \<and>
   itemQuantity badItem = NaN \<and> itemQuantity badItem \<noteq> Fin 0 \<and>
   itemTotal badItem = NaN \<and>
   textsAt 175 (createPDFDocument sampleLib (bareInvoice Absent (Some [badItem])) None None) =
     [''$NaN'', ''$NaN'', ''$NaN'']"
proof -
  let ?d = "bareInvoice Absent (Some [badItem])"
  let ?f = "createPDFDocument_frame sampleLib ?d None None"
  have q: "itemQuantity badItem = NaN"
    by (simp add: itemQuantity_def badItem_def or_zero_def parseFloat_def parseFloat_str_abc)
  have l: "lineItems (v_invoice ?f) = Some [badItem]"
    by (simp add: bare_invoice)
  have sv: "v_services ?f = []" and ms: "v_materials ?f = [badItem]"
    using l by (simp_all add: cframe_services cframe_materials separateItems_filter
        isService_badItem)
  have m: "v_materialsSubtotal ?f = NaN"
    by (simp add: cframe_materialsSubtotal ms itemTotal_badItem)
  have s: "v_subtotal ?f = NaN"
    by (simp add: cframe_subtotal cframe_servicesSubtotal sv m)
  have i: "v_invoiceTotal ?f = Fin 0"
    by (simp add: bare_invoice or_zero_def parseFloat_def)
  have "v_taxAmount ?f = calcTaxAmount (Fin 0) NaN"
    using cframe_taxAmount [of sampleLib ?d None None] by (simp only: i s)
  then have x: "v_taxAmount ?f = NaN"
    by (simp add: calcTaxAmount_def)
  have "v_total ?f = calcTotal (Fin 0) NaN NaN"
    using cframe_total [of sampleLib ?d None None] by (simp only: i s x)
  then have t: "v_total ?f = NaN"
    by (simp add: calcTotal_def)
  have n: "toFixed2 sampleLib NaN = ''NaN''"
    by (simp add: sampleLib_def sampleToFixed2_def)
  have "textsAt 175 (createPDFDocument sampleLib ?d None None) = [''$NaN'', ''$NaN'', ''$NaN'']"
    by (simp add: cdoc_amounts sv ms m s x t n)
  with q itemTotal_badItem show ?thesis
    by (simp add: badItem_def parseFloat_str_abc)
qed

text \<open>
  Claim C5, amended: when the quantity or the rate of a line item is a string that
  does not parse as a number, the value used for that field is \<open>NaN\<close> if the string is
  not empty and 0 if it is empty, the amount of the item is \<open>NaN\<close> in the first case,
  and the build does not fail: the row of the item is in a table of the document, and
  the document is completed down to its footer.
\<close>

theorem malformed_number:
  assumes "lineItems (v_invoice (createPDFDocument_frame lib d u c)) = Some items"
    and "item \<in> set items"
    and "quantity item = StrV s \<or> rate item = StrV s"
    and "parseFloat_str s = NaN"
  shows "(quantity item = StrV s \<longrightarrow> itemQuantity item = (if s = [] then Fin 0 else NaN)) \<and>
     (rate item = StrV s \<longrightarrow> itemRate item = (if s = [] then Fin 0 else NaN)) \<and>
     (s \<noteq> [] \<longrightarrow> itemTotal item = NaN) \<and>
     (\<exists>t\<in>set (tablesOf (createPDFDocument lib d u c)). itemRow lib item \<in> set (body t)) \<and>
     ''Thank you for your business!'' \<in> set (textsAt 105 (createPDFDocument lib d u c))"
proof -
  have q: "quantity item = StrV s \<longrightarrow> itemQuantity item = (if s = [] then Fin 0 else NaN)"
    using assms(4) by (simp add: itemQuantity_def or_zero_def parseFloat_def)
  have r: "rate item = StrV s \<longrightarrow> itemRate item = (if s = [] then Fin 0 else NaN)"
    using assms(4) by (simp add: itemRate_def or_zero_def parseFloat_def)
  have t: "s \<noteq> [] \<longrightarrow> itemTotal item = NaN"
    using assms(3) q r by (auto simp add: itemTotal_def js_mul_NaN)
  have f: "''Thank you for your business!'' \<in> set (textsAt 105 (createPDFDocument lib d u c))"
    by (simp add: cdoc_footer)
  from q r t f row_in_table [OF assms(1) assms(2)] show ?thesis by blast
qed

text \<open>An invoice whose only item has the quantity \<^verbatim>\<open>abc\<close>.\<close>

theorem malformed_number_witness:
  "lineItems (v_invoice (createPDFDocument_frame sampleLib
       (bareInvoice Absent (Some [badItem])) None None)) = Some [badItem] \<and>
   quantity badItem = StrV ''abc'' \<and> parseFloat_str ''abc'' = NaN \<and>
   itemQuantity badItem = NaN \<and> itemTotal badItem = NaN \<and>
   (\<exists>t\<in>set (tablesOf (createPDFDocument sampleLib
        (bareInvoice Absent (Some [badItem])) None None)).
      itemRow sampleLib badItem \<in> set (body t)) \<and>
   ''Thank you for your business!'' \<in> set (textsAt 105 (createPDFDocument sampleLib
        (bareInvoice Absent (Some [badItem])) None None))"
proof -
  let ?d = "bareInvoice Absent (Some [badItem])"
  have h1: "lineItems (v_invoice (createPDFDocument_frame sampleLib ?d None None)) =
      Some [badItem]"
    by (simp add: bare_invoice)
  have h2: "badItem \<in> set [badItem]" by simp
  have q: "quantity badItem = StrV ''abc''" by (simp add: badItem_def)
  then have h3: "quantity badItem = StrV ''abc'' \<or> rate badItem = StrV ''abc''" by simp
  show ?thesis
    using h1 q malformed_number [OF h1 h2 h3 parseFloat_str_abc]
    by (simp add: parseFloat_str_abc)
qed

subsection \<open>Amounts and subtotals\<close>

text \<open>
  Claim C6: the amount of an item is the product of its parsed quantity and rate, and
  it is what the last cell of its row prints; an amount carried by the item changes
  neither, nor anything else in the document; the body of each table is the rows of its
  bucket; the subtotal of each section is the sum of the amounts of its bucket, added
  from 0 in the order of the rows, which is 0 for an empty bucket; and the subtotal is
  the sum of the two.
\<close>

theorem amounts_and_subtotals:
  "(\<forall>item. itemTotal item =
      js_mul (parseFloat (or_zero (quantity item))) (parseFloat (or_zero (rate item))) \<and>
      last (itemRow lib item) = ''$'' @ toFixed2 lib (itemTotal item)) \<and>
   (\<forall>item a. itemTotal (item\<lparr>amount := a\<rparr>) = itemTotal item \<and>
      itemRow lib (item\<lparr>amount := a\<rparr>) = itemRow lib item) \<and>
   (\<forall>g. createPDFDocument lib (replaceAmountsData g d) u c = createPDFDocument lib d u c) \<and>
   map body (tablesOf (createPDFDocument lib d u c)) =
     map (map (itemRow lib))
       (filter (\<lambda>bucket. bucket \<noteq> [])
          [v_services (createPDFDocument_frame lib d u c),
           v_materials (createPDFDocument_frame lib d u c)]) \<and>
   v_servicesSubtotal (createPDFDocument_frame lib d u c) =
     foldl js_add (Fin 0) (map itemTotal (v_services (createPDFDocument_frame lib d u c))) \<and>
   v_materialsSubtotal (createPDFDocument_frame lib d u c) =
     foldl js_add (Fin 0) (map itemTotal (v_materials (createPDFDocument_frame lib d u c))) \<and>
   v_subtotal (createPDFDocument_frame lib d u c) =
     js_add (v_servicesSubtotal (createPDFDocument_frame lib d u c))
       (v_materialsSubtotal (createPDFDocument_frame lib d u c))"
proof -
  let ?f = "createPDFDocument_frame lib d u c"
  have item: "\<forall>item. itemTotal item =
      js_mul (parseFloat (or_zero (quantity item))) (parseFloat (or_zero (rate item))) \<and>
      last (itemRow lib item) = ''$'' @ toFixed2 lib (itemTotal item)"
    by (simp add: itemTotal_def itemQuantity_def itemRate_def itemRow_def)
  have ign: "\<forall>item a. itemTotal (item\<lparr>amount := a\<rparr>) = itemTotal item \<and>
      itemRow lib (item\<lparr>amount := a\<rparr>) = itemRow lib item"
    by (simp add: amount_ignored_item)
  have doc: "\<forall>g. createPDFDocument lib (replaceAmountsData g d) u c = createPDFDocument lib d u c"
    by (simp add: createPDFDocument_amount)
  have "map (\<lambda>t. snd (head t, body t)) (tablesOf (createPDFDocument lib d u c)) =
      map (map (itemRow lib)) (filter (\<lambda>bucket. bucket \<noteq> []) [v_services ?f, v_materials ?f])"
    unfolding map_map [symmetric, of snd "\<lambda>t. (head t, body t)", unfolded o_def] cdoc_tables
    by simp
  then have tabs: "map body (tablesOf (createPDFDocument lib d u c)) =
      map (map (itemRow lib)) (filter (\<lambda>bucket. bucket \<noteq> []) [v_services ?f, v_materials ?f])"
    by simp
  from item ign doc tabs cframe_servicesSubtotal [of lib d u c]
    cframe_materialsSubtotal [of lib d u c] cframe_subtotal [of lib d u c]
  show ?thesis by blast
qed

subsection \<open>The tax line\<close>



subsection \<open>An invoice without items\<close>

text \<open>
  Claim C8: when the line items are missing or empty and the record has no
  authoritative total (its parsed total is not positive), the document has no table,
  the subtotal, the tax and the final total are 0, the only lines of the totals block
  are the subtotal and the total, both printing 0, and the document has its header and
  its footer.
\<close>

theorem empty_invoice:
  assumes "lineItems (v_invoice (createPDFDocument_frame lib d u c)) = None \<or>
      lineItems (v_invoice (createPDFDocument_frame lib d u c)) = Some []"
    and "\<not> js_gt (v_invoiceTotal (createPDFDocument_frame lib d u c)) (Fin 0)"
  shows "tablesOf (createPDFDocument lib d u c) = [] \<and>
     v_subtotal (createPDFDocument_frame lib d u c) = Fin 0 \<and>
     v_taxAmount (createPDFDocument_frame lib d u c) = Fin 0 \<and>
     v_total (createPDFDocument_frame lib d u c) = Fin 0 \<and>
     textsAt 135 (createPDFDocument lib d u c) = [''Subtotal:'', ''TOTAL:''] \<and>
     textsAt 175 (createPDFDocument lib d u c) =
       [''$'' @ toFixed2 lib (Fin 0), ''$'' @ toFixed2 lib (Fin 0)] \<and>
     prefix
       [SetFontSize 24, SetTextColor darkGray, SetFont ''helvetica'' ''bold'',
        Text (or_str (businessName (v_businessInfo (createPDFDocument_frame lib d u c)))
                ''Invoice'') 20 25 None]
       (createPDFDocument lib d u c) \<and>
     textsAt 105 (createPDFDocument lib d u c) =
       [''Thank you for your business!''] @
       (if truthy_str (businessName (v_businessInfo (createPDFDocument_frame lib d u c)))
        then [''Generated by '' @
                or_str (businessName (v_businessInfo (createPDFDocument_frame lib d u c))) []]
        else [])"
proof -
  let ?f = "createPDFDocument_frame lib d u c"
  let ?doc = "createPDFDocument lib d u c"
  have sv: "v_services ?f = []" and ms: "v_materials ?f = []"
    using assms(1) by (simp_all add: cframe_services cframe_materials separateItems_none)
  have sub: "v_subtotal ?f = Fin 0"
    by (simp add: cframe_subtotal cframe_servicesSubtotal cframe_materialsSubtotal sv ms)
  have tax: "v_taxAmount ?f = Fin 0"
    using assms(2) cframe_taxAmount [of lib d u c] by (simp add: calcTaxAmount_def sub)
  have tot: "v_total ?f = Fin 0"
    using assms(2) cframe_total [of lib d u c] by (simp add: calcTotal_def sub tax)
  have tabs: "tablesOf ?doc = []"
    using cdoc_tables [of lib d u c] by (simp add: sv ms)
  have labels: "textsAt 135 ?doc = [''Subtotal:'', ''TOTAL:'']"
    by (simp add: cdoc_labels sv ms tax)
  have amounts: "textsAt 175 ?doc = [''$'' @ toFixed2 lib (Fin 0), ''$'' @ toFixed2 lib (Fin 0)]"
    by (simp add: cdoc_amounts sv ms sub tax tot)
  from tabs sub tax tot labels amounts cdoc_header [of lib d u c] cdoc_footer [of lib d u c]
  show ?thesis by simp
qed

text \<open>An empty list of items, no total, no profiles.\<close>

theorem empty_invoice_witness:
  "lineItems (v_invoice (createPDFDocument_frame sampleLib
       (bareInvoice Absent (Some [])) None None)) = Some [] \<and>
   tablesOf (createPDFDocument sampleLib (bareInvoice Absent (Some [])) None None) = [] \<and>
   v_subtotal (createPDFDocument_frame sampleLib
       (bareInvoice Absent (Some [])) None None) = Fin 0 \<and>
   v_taxAmount (createPDFDocument_frame sampleLib
       (bareInvoice Absent (Some [])) None None) = Fin 0 \<and>
   v_total (createPDFDocument_frame sampleLib
       (bareInvoice Absent (Some [])) None None) = Fin 0 \<and>
   textsAt 135 (createPDFDocument sampleLib (bareInvoice Absent (Some [])) None None) =
     [''Subtotal:'', ''TOTAL:''] \<and>
   textsAt 175 (createPDFDocument sampleLib (bareInvoice Absent (Some [])) None None) =
     [''$0.00'', ''$0.00''] \<and>
   prefix
     [SetFontSize 24, SetTextColor darkGray, SetFont ''helvetica'' ''bold'',
      Text ''Invoice'' 20 25 None]
     (createPDFDocument sampleLib (bareInvoice Absent (Some [])) None None) \<and>
   textsAt 105 (createPDFDocument sampleLib (bareInvoice Absent (Some [])) None None) =
     [''Thank you for your business!'']"
proof -
  let ?d = "bareInvoice Absent (Some [])"
  let ?f = "createPDFDocument_frame sampleLib ?d None None"
  have h1: "lineItems (v_invoice ?f) = None \<or> lineItems (v_invoice ?f) = Some []"
    by (simp add: bare_invoice)
  have h2: "\<not> js_gt (v_invoiceTotal ?f) (Fin 0)"
    by (simp add: bare_invoice or_zero_def parseFloat_def)
  have b: "businessName (v_businessInfo ?f) = None"
    by (simp add: frame_unwrap frame_businessInfo bareInvoice_def or_obj_def emptyBusiness_def)
  show ?thesis
    using empty_invoice [OF h1 h2]
    by (simp add: bare_invoice b toFixed2_sample_0 or_str_def truthy_str_def)
qed

subsection \<open>Resolving the arguments\<close>

text \<open>
  Claim C9: the record is \<^verbatim>\<open>invoiceData.invoice\<close> when that field is there and
  \<^verbatim>\<open>invoiceData\<close> itself otherwise; the business profile is \<^verbatim>\<open>invoiceData.user\<close>,
  else the \<^verbatim>\<open>user\<close> argument, else the empty object, and likewise for the client;
  the document is composed from these three; and the file name of
  \<^verbatim>\<open>generatePDF\<close> uses the invoice number of the same record, or \<^verbatim>\<open>Draft\<close>.
\<close>

theorem argument_unwrapping:
  "v_invoice (createPDFDocument_frame lib d u c) =
     (case invoice d of Some i \<Rightarrow> i | None \<Rightarrow> InvoiceRecord.truncate d) \<and>
   v_businessInfo (createPDFDocument_frame lib d u c) =
     (case user d of
        Some b \<Rightarrow> b
      | None \<Rightarrow> (case u of Some b \<Rightarrow> b | None \<Rightarrow> emptyBusiness)) \<and>
   v_clientInfo (createPDFDocument_frame lib d u c) =
     (case client d of
        Some k \<Rightarrow> k
      | None \<Rightarrow> (case c of Some k \<Rightarrow> k | None \<Rightarrow> emptyClient)) \<and>
   createPDFDocument lib d u c =
     v_doc (composeDocument lib (v_invoice (createPDFDocument_frame lib d u c))
       (v_businessInfo (createPDFDocument_frame lib d u c))
       (v_clientInfo (createPDFDocument_frame lib d u c))) \<and>
   fileName (generatePDF lib d u c) =
     ''Invoice-'' @
       or_str (invoiceNumber (v_invoice (createPDFDocument_frame lib d u c))) ''Draft'' @
       ''.pdf'' \<and>
   businessName emptyBusiness = None \<and> businessAddress emptyBusiness = None \<and>
   businessPhone emptyBusiness = None \<and> businessEmail emptyBusiness = None \<and>
   name emptyClient = None \<and> email emptyClient = None \<and> address emptyClient = None"
proof -
  have "businessName emptyBusiness = None \<and> businessAddress emptyBusiness = None \<and>
    businessPhone emptyBusiness = None \<and> businessEmail emptyBusiness = None \<and>
    name emptyClient = None \<and> email emptyClient = None \<and> address emptyClient = None"
    by (simp add: emptyBusiness_def emptyClient_def)
  then show ?thesis
    by (simp add: createPDFDocument_def frame_unwrap frame_invoice frame_businessInfo
        frame_clientInfo generatePDF_def Let_def or_obj_def)
qed

subsection \<open>A total equal to the subtotal\<close>




end
